theory Spec2Isabelle
  imports Main
begin

section \<open>Errors and entities\<close>

text \<open>
  The error values of \<^verbatim>\<open>internal/util\<close> that the services build
  (\<^verbatim>\<open>&util.NotFoundError{Path: ...}\<close> and its siblings), the error of the web
  framework (\<^verbatim>\<open>echo.NewHTTPError(code, message)\<close>), and \<open>OtherError\<close> for every
  other Go \<^verbatim>\<open>error\<close>: a failure of the store, or one made with \<^verbatim>\<open>errors.New\<close>.
\<close>

datatype error =
    NotFoundError string
  | InvalidInputError string
  | AlreadyExistsError string
  | HTTPError nat string
  | OtherError string

text \<open>Whether an error is of the InvalidInput class.\<close>

fun is_InvalidInput :: "error \<Rightarrow> bool" where
  "is_InvalidInput (InvalidInputError path) = True"
| "is_InvalidInput other = False"

text \<open>
  \<^verbatim>\<open>primitive.ObjectID\<close> is kept as its hexadecimal form, so \<^verbatim>\<open>id.Hex()\<close> is the
  identity; \<^verbatim>\<open>id.String()\<close> wraps the hexadecimal form as \<^verbatim>\<open>ObjectID("...")\<close>.
\<close>

type_synonym ObjectID = string

definition Hex :: "ObjectID \<Rightarrow> string" where
  "Hex oid = oid"

definition ObjectID_String :: "ObjectID \<Rightarrow> string" where
  "ObjectID_String oid = ''ObjectID('' @ [CHR 0x22] @ oid @ [CHR 0x22] @ '')''"

text \<open>The structs of \<^verbatim>\<open>internal/mongo_entity/organization.go\<close>.\<close>

record Permission =
  perm_Action :: string
  perm_Resource :: string

record Action =
  act_ID :: ObjectID
  act_Identifier :: string
  act_DisplayName :: string

record MResource =
  res_ID :: ObjectID
  res_Identifier :: string
  res_DisplayName :: string
  res_Type :: string
  res_Actions :: "Action list"

record User =
  user_ID :: ObjectID
  user_Username :: string
  user_Identifier :: string
  user_UserProperties :: "(string \<times> string) list"
  user_Roles :: "ObjectID list"
  user_Groups :: "ObjectID list"

record Role =
  role_ID :: ObjectID
  role_Identifier :: string
  role_DisplayName :: string
  role_Users :: "ObjectID list"
  role_Groups :: "ObjectID list"
  role_Permissions :: "Permission list"

record Group =
  grp_ID :: ObjectID
  grp_Identifier :: string
  grp_DisplayName :: string
  grp_Users :: "ObjectID list"
  grp_Roles :: "ObjectID list"

record Organization =
  org_ID :: ObjectID
  org_Identifier :: string
  org_DisplayName :: string
  org_API_KEY :: string
  org_Resources :: "MResource list"
  org_Users :: "User list"
  org_Roles :: "Role list"
  org_Groups :: "Group list"

section \<open>The role service (\<^verbatim>\<open>internal/role/service.go\<close>)\<close>

record CreateRoleRequest =
  crr_Identifier :: string
  crr_DisplayName :: string
  crr_Users :: "ObjectID list"

record UpdateRoleRequest =
  urr_DisplayName :: "string option"
  urr_AddedUsers :: "ObjectID list"
  urr_RemovedUser :: "ObjectID list"

record UpdateRole =
  ur_DisplayName :: "string option"
  ur_AddedUsers :: "ObjectID list"
  ur_RemovedUser :: "ObjectID list"

record PatchRolePermissionRequest =
  prr_AddedPermission :: "Permission list"
  prr_RemovedPermission :: "Permission list"

record PatchRolePermission =
  pr_AddedPermission :: "Permission list"
  pr_RemovedPermission :: "Permission list"

text \<open>
  The service is written against the interface \<^verbatim>\<open>Repository\<close>, whose implementation is
  not part of the sources. The interface is a record of functions over a store \<open>'db\<close>:
  a method that writes returns the store it leaves behind, a method that only reads
  returns no store. Every caller of a \<^verbatim>\<open>Check...\<close> method drops its error
  (\<^verbatim>\<open>exists, _ := ...\<close>), so those methods return the boolean alone.
\<close>

record 'db Repository =
  repo_Get :: "'db \<Rightarrow> string \<Rightarrow> string \<Rightarrow> error + Role"
  repo_Create :: "'db \<Rightarrow> string \<Rightarrow> Role \<Rightarrow> error option \<times> 'db"
  repo_Update :: "'db \<Rightarrow> string \<Rightarrow> string \<Rightarrow> UpdateRole \<Rightarrow> error option \<times> 'db"
  repo_PatchPermission ::
    "'db \<Rightarrow> string \<Rightarrow> string \<Rightarrow> PatchRolePermission \<Rightarrow> error option \<times> 'db"
  repo_CheckRoleExistsByIdentifier :: "'db \<Rightarrow> string \<Rightarrow> string \<Rightarrow> bool"
  repo_CheckUserExistById :: "'db \<Rightarrow> string \<Rightarrow> string \<Rightarrow> bool"
  repo_CheckUserAlreadyAssignToRoleById :: "'db \<Rightarrow> string \<Rightarrow> string \<Rightarrow> string \<Rightarrow> bool"
  repo_CheckResourceActionExists :: "'db \<Rightarrow> string \<Rightarrow> string \<Rightarrow> string \<Rightarrow> bool"

text \<open>\<^verbatim>\<open>func (s service) Get\<close>: any failure of the store is reported as NotFound.\<close>

definition role_Get :: "'db Repository \<Rightarrow> 'db \<Rightarrow> string \<Rightarrow> string \<Rightarrow> error + Role" where
  "role_Get repo db org_id rid =
     (case repo_Get repo db org_id rid of
        Inl err \<Rightarrow> Inl (NotFoundError ''Role'')
      | Inr role \<Rightarrow> Inr role)"

text \<open>
  \<^verbatim>\<open>CreateRoleRequest.Validate\<close>: the rule \<^verbatim>\<open>validation.Required\<close> on
  \<^verbatim>\<open>Identifier\<close> refuses the empty string.
\<close>

definition CreateRoleRequest_Validate :: "CreateRoleRequest \<Rightarrow> bool" where
  "CreateRoleRequest_Validate m = (crr_Identifier m \<noteq> [])"

text \<open>
  The loops \<^verbatim>\<open>for _, userId := range ...\<close> that return at the first user the store
  does not know. \<open>path\<close> is the text the message starts with
  (\<^verbatim>\<open>"Invalid user id "\<close> in Create, \<^verbatim>\<open>"Invalid role id "\<close> in Update).
\<close>

fun check_users ::
  "'db Repository \<Rightarrow> 'db \<Rightarrow> string \<Rightarrow> string \<Rightarrow> ObjectID list \<Rightarrow> error option" where
  "check_users repo db org_id path [] = None"
| "check_users repo db org_id path (userId # rest) =
     (if \<not> repo_CheckUserExistById repo db org_id (Hex userId)
      then Some (InvalidInputError (path @ ObjectID_String userId))
      else check_users repo db org_id path rest)"

text \<open>
  \<^verbatim>\<open>func (s service) Create\<close>. \<open>roleId\<close> is the value of
  \<^verbatim>\<open>primitive.NewObjectID()\<close>.
\<close>

definition role_Create ::
  "'db Repository \<Rightarrow> ObjectID \<Rightarrow> 'db \<Rightarrow> string \<Rightarrow> CreateRoleRequest \<Rightarrow> (error + Role) \<times> 'db" where
  "role_Create repo roleId db org_id req =
     (if \<not> CreateRoleRequest_Validate req
      then (Inl (InvalidInputError ''Invalid input for role.''), db)
      else if repo_CheckRoleExistsByIdentifier repo db org_id (crr_Identifier req)
      then (Inl (AlreadyExistsError (''Role : '' @ crr_Identifier req @ '' already exists.'')), db)
      else (case check_users repo db org_id ''Invalid user id '' (crr_Users req) of
              Some e \<Rightarrow> (Inl e, db)
            | None \<Rightarrow>
               (case repo_Create repo db org_id
                       \<lparr>role_ID = roleId, role_Identifier = crr_Identifier req,
                        role_DisplayName = crr_DisplayName req, role_Users = crr_Users req,
                        role_Groups = [], role_Permissions = []\<rparr> of
                  (Some err, db') \<Rightarrow> (Inl err, db')
                | (None, db') \<Rightarrow> (role_Get repo db' org_id (Hex roleId), db'))))"

text \<open>
  The two loops of Update that build \<^verbatim>\<open>added_users\<close> and \<^verbatim>\<open>removed_roles\<close> by
  \<^verbatim>\<open>append\<close>; \<open>acc\<close> is the slice built so far.
\<close>

fun collect_added ::
  "'db Repository \<Rightarrow> 'db \<Rightarrow> string \<Rightarrow> string \<Rightarrow> ObjectID list \<Rightarrow> ObjectID list \<Rightarrow> ObjectID list" where
  "collect_added repo db org_id rid acc [] = acc"
| "collect_added repo db org_id rid acc (userId # rest) =
     (if \<not> repo_CheckUserAlreadyAssignToRoleById repo db org_id rid (Hex userId)
      then collect_added repo db org_id rid (acc @ [userId]) rest
      else collect_added repo db org_id rid acc rest)"

fun collect_removed ::
  "'db Repository \<Rightarrow> 'db \<Rightarrow> string \<Rightarrow> string \<Rightarrow> ObjectID list \<Rightarrow> ObjectID list \<Rightarrow> ObjectID list" where
  "collect_removed repo db org_id rid acc [] = acc"
| "collect_removed repo db org_id rid acc (userId # rest) =
     (if repo_CheckUserAlreadyAssignToRoleById repo db org_id rid (Hex userId)
      then collect_removed repo db org_id rid (acc @ [userId]) rest
      else collect_removed repo db org_id rid acc rest)"

text \<open>\<^verbatim>\<open>func (s service) Update\<close>.\<close>

definition role_Update ::
  "'db Repository \<Rightarrow> 'db \<Rightarrow> string \<Rightarrow> string \<Rightarrow> UpdateRoleRequest \<Rightarrow> (error + Role) \<times> 'db" where
  "role_Update repo db org_id rid req =
     (case role_Get repo db org_id rid of
        Inl err \<Rightarrow> (Inl (NotFoundError (''Role '' @ rid @ '' not exists.'')), db)
      | Inr found \<Rightarrow>
         (case check_users repo db org_id ''Invalid role id '' (urr_AddedUsers req) of
            Some e \<Rightarrow> (Inl e, db)
          | None \<Rightarrow>
             (case check_users repo db org_id ''Invalid role id '' (urr_RemovedUser req) of
                Some e \<Rightarrow> (Inl e, db)
              | None \<Rightarrow>
                 (case repo_Update repo db org_id rid
                         \<lparr>ur_DisplayName = urr_DisplayName req,
                          ur_AddedUsers = collect_added repo db org_id rid [] (urr_AddedUsers req),
                          ur_RemovedUser =
                            collect_removed repo db org_id rid [] (urr_RemovedUser req)\<rparr> of
                    (Some err, db') \<Rightarrow> (Inl err, db')
                  | (None, db') \<Rightarrow>
                     (case repo_Get repo db' org_id rid of
                        Inl err \<Rightarrow> (Inl (NotFoundError (''Role '' @ rid @ '' not exists.'')), db')
                      | Inr updatedRole \<Rightarrow> (Inr updatedRole, db'))))))"

text \<open>
  The loop of PatchPermission over \<^verbatim>\<open>req.AddedPermission\<close>: it returns at the first
  permission whose resource and action the store does not know.
\<close>

fun check_added ::
  "'db Repository \<Rightarrow> 'db \<Rightarrow> string \<Rightarrow> Permission list \<Rightarrow> error option" where
  "check_added repo db org_id [] = None"
| "check_added repo db org_id (permission # rest) =
     (if \<not> repo_CheckResourceActionExists repo db org_id
             (perm_Resource permission) (perm_Action permission)
      then Some (InvalidInputError
                  (''Invalid permission, Resource : '' @ perm_Resource permission @
                   '' Action : '' @ perm_Action permission))
      else check_added repo db org_id rest)"

text \<open>
  \<^verbatim>\<open>func (s service) PatchPermission\<close>. The struct handed to the store is
  \<^verbatim>\<open>PatchRolePermission{AddedPermission: req.AddedPermission}\<close>: its
  \<^verbatim>\<open>RemovedPermission\<close> is the zero value, the empty slice.
\<close>

definition PatchPermission ::
  "'db Repository \<Rightarrow> 'db \<Rightarrow> string \<Rightarrow> string \<Rightarrow> PatchRolePermissionRequest \<Rightarrow> error option \<times> 'db"
  where
  "PatchPermission repo db org_id role_id req =
     (case check_added repo db org_id (prr_AddedPermission req) of
        Some e \<Rightarrow> (Some e, db)
      | None \<Rightarrow>
         (case repo_PatchPermission repo db org_id role_id
                 \<lparr>pr_AddedPermission = prr_AddedPermission req, pr_RemovedPermission = []\<rparr> of
            (Some err, db') \<Rightarrow> (Some err, db')
          | (None, db') \<Rightarrow> (None, db')))"

section \<open>An in-memory store\<close>

text \<open>
  Modelled from the spec: \<^verbatim>\<open>entity.Tuple\<close>, missing from the sources, as the request
  shapes of the spec give it: \<^verbatim>\<open>Tuple{subject, relation/action, object/resource}\<close>.
\<close>

record Tuple =
  tup_Subject :: string
  tup_Relation :: string
  tup_Object :: string

text \<open>
  Modelled from the spec: the Entity Store, whose implementation is missing from the
  sources. It holds the organizations with everything they own, and the tuples, each
  recorded for one organization.
\<close>

record Store =
  st_Orgs :: "Organization list"
  st_Tuples :: "(string \<times> Tuple) list"

text \<open>
  Modelled from the spec: reading one organization or one role of the store by its id,
  and rewriting it in place; every entity is reached through its organization.
\<close>

definition find_org :: "Store \<Rightarrow> string \<Rightarrow> Organization option" where
  "find_org db org_id = find (\<lambda>org. Hex (org_ID org) = org_id) (st_Orgs db)"

definition update_org :: "Store \<Rightarrow> string \<Rightarrow> (Organization \<Rightarrow> Organization) \<Rightarrow> Store" where
  "update_org db org_id f =
     db\<lparr>st_Orgs := map (\<lambda>org. if Hex (org_ID org) = org_id then f org else org) (st_Orgs db)\<rparr>"

definition find_role :: "Organization \<Rightarrow> string \<Rightarrow> Role option" where
  "find_role org rid = find (\<lambda>r. Hex (role_ID r) = rid) (org_Roles org)"

definition update_role :: "string \<Rightarrow> (Role \<Rightarrow> Role) \<Rightarrow> Organization \<Rightarrow> Organization" where
  "update_role rid f org =
     org\<lparr>org_Roles := map (\<lambda>r. if Hex (role_ID r) = rid then f r else r) (org_Roles org)\<rparr>"

text \<open>
  Modelled from the spec: the method \<^verbatim>\<open>Get\<close> of the role Repository, whose
  implementation is missing from the sources. It reads the role out of the
  organization that owns it; the absence of either is the store's error.
\<close>

definition mem_Get :: "Store \<Rightarrow> string \<Rightarrow> string \<Rightarrow> error + Role" where
  "mem_Get db org_id rid =
     (case find_org db org_id of
        None \<Rightarrow> Inl (OtherError ''no documents in result'')
      | Some org \<Rightarrow>
         (case find_role org rid of
            None \<Rightarrow> Inl (OtherError ''no documents in result'')
          | Some r \<Rightarrow> Inr r))"

text \<open>
  Modelled from the spec: the upkeep of a user's back-references to its roles, which
  the spec's data model asks to keep in step with the role's member list. The role
  \<open>rid\<close> is added to the users of \<open>added\<close> and then taken from those of \<open>removed\<close>.
\<close>

definition link_users :: "ObjectID \<Rightarrow> ObjectID list \<Rightarrow> ObjectID list \<Rightarrow> User list \<Rightarrow> User list" where
  "link_users rid added removed users =
     map (\<lambda>u.
            let rs = (if user_ID u \<in> set added \<and> rid \<notin> set (user_Roles u)
                      then user_Roles u @ [rid] else user_Roles u)
            in u\<lparr>user_Roles := (if user_ID u \<in> set removed then removeAll rid rs else rs)\<rparr>)
         users"

text \<open>
  Modelled from the spec: the method \<^verbatim>\<open>Create\<close> of the role Repository, missing from
  the sources. The role joins the roles of its organization.
\<close>

definition mem_Create :: "Store \<Rightarrow> string \<Rightarrow> Role \<Rightarrow> error option \<times> Store" where
  "mem_Create db org_id role =
     (case find_org db org_id of
        None \<Rightarrow> (Some (OtherError ''no documents in result''), db)
      | Some org \<Rightarrow>
         (None, update_org db org_id
            (\<lambda>org. org\<lparr>org_Roles := org_Roles org @ [role],
                       org_Users := link_users (role_ID role) (role_Users role) [] (org_Users org)\<rparr>)))"

text \<open>
  Modelled from the spec: the method \<^verbatim>\<open>Update\<close> of the role Repository, missing from
  the sources. One write sets the display name when the patch carries one, adds the
  added users to the member list and takes the removed ones from it.
\<close>

definition mem_Update :: "Store \<Rightarrow> string \<Rightarrow> string \<Rightarrow> UpdateRole \<Rightarrow> error option \<times> Store" where
  "mem_Update db org_id rid upd =
     (case mem_Get db org_id rid of
        Inl err \<Rightarrow> (Some err, db)
      | Inr found \<Rightarrow>
         (None, update_org db org_id
            (\<lambda>org. (update_role rid
                      (\<lambda>r. r\<lparr>role_DisplayName :=
                                (case ur_DisplayName upd of None \<Rightarrow> role_DisplayName r | Some n \<Rightarrow> n),
                              role_Users :=
                                filter (\<lambda>u. u \<notin> set (ur_RemovedUser upd))
                                  (role_Users r @ ur_AddedUsers upd)\<rparr>) org)
                    \<lparr>org_Users :=
                       link_users (role_ID found) (ur_AddedUsers upd) (ur_RemovedUser upd)
                         (org_Users org)\<rparr>)))"

text \<open>
  Modelled from the spec: the method \<^verbatim>\<open>PatchPermission\<close> of the role Repository,
  missing from the sources. The additions and the removals of the patch are applied to
  the role's permission set in one write.
\<close>

definition mem_PatchPermission ::
  "Store \<Rightarrow> string \<Rightarrow> string \<Rightarrow> PatchRolePermission \<Rightarrow> error option \<times> Store" where
  "mem_PatchPermission db org_id rid patch =
     (case mem_Get db org_id rid of
        Inl err \<Rightarrow> (Some err, db)
      | Inr found \<Rightarrow>
         (None, update_org db org_id
            (update_role rid
               (\<lambda>r. r\<lparr>role_Permissions :=
                        filter (\<lambda>p. p \<notin> set (pr_RemovedPermission patch))
                          (remdups (role_Permissions r @ pr_AddedPermission patch))\<rparr>))))"

text \<open>
  Modelled from the spec: the existence checks of the role Repository, missing from
  the sources. Each looks inside the organization it is given and nowhere else.
\<close>

definition mem_CheckRoleExistsByIdentifier :: "Store \<Rightarrow> string \<Rightarrow> string \<Rightarrow> bool" where
  "mem_CheckRoleExistsByIdentifier db org_id ident =
     (case find_org db org_id of
        None \<Rightarrow> False
      | Some org \<Rightarrow> list_ex (\<lambda>r. role_Identifier r = ident) (org_Roles org))"

text \<open>Modelled from the spec: \<^verbatim>\<open>CheckUserExistById\<close>, missing from the sources.\<close>

definition mem_CheckUserExistById :: "Store \<Rightarrow> string \<Rightarrow> string \<Rightarrow> bool" where
  "mem_CheckUserExistById db org_id uid =
     (case find_org db org_id of
        None \<Rightarrow> False
      | Some org \<Rightarrow> list_ex (\<lambda>u. Hex (user_ID u) = uid) (org_Users org))"

text \<open>
  Modelled from the spec: \<^verbatim>\<open>CheckUserAlreadyAssignToRoleById\<close>, missing from the
  sources: whether the user is in the member list of the role.
\<close>

definition mem_CheckUserAlreadyAssignToRoleById ::
  "Store \<Rightarrow> string \<Rightarrow> string \<Rightarrow> string \<Rightarrow> bool" where
  "mem_CheckUserAlreadyAssignToRoleById db org_id rid uid =
     (case mem_Get db org_id rid of
        Inl err \<Rightarrow> False
      | Inr r \<Rightarrow> list_ex (\<lambda>u. Hex u = uid) (role_Users r))"

text \<open>
  Modelled from the spec: \<^verbatim>\<open>CheckResourceActionExists\<close>, missing from the sources:
  whether the action is declared on the resource, both named by their identifiers.
\<close>

definition mem_CheckResourceActionExists :: "Store \<Rightarrow> string \<Rightarrow> string \<Rightarrow> string \<Rightarrow> bool" where
  "mem_CheckResourceActionExists db org_id res act =
     (case find_org db org_id of
        None \<Rightarrow> False
      | Some org \<Rightarrow>
         list_ex (\<lambda>r. res_Identifier r = res \<and> list_ex (\<lambda>a. act_Identifier a = act) (res_Actions r))
           (org_Resources org))"

definition mem_repo :: "Store Repository" where
  "mem_repo =
     \<lparr>repo_Get = mem_Get, repo_Create = mem_Create, repo_Update = mem_Update,
      repo_PatchPermission = mem_PatchPermission,
      repo_CheckRoleExistsByIdentifier = mem_CheckRoleExistsByIdentifier,
      repo_CheckUserExistById = mem_CheckUserExistById,
      repo_CheckUserAlreadyAssignToRoleById = mem_CheckUserAlreadyAssignToRoleById,
      repo_CheckResourceActionExists = mem_CheckResourceActionExists\<rparr>"

text \<open>
  The scenario of the spec's testable properties: the organization \<open>acme\<close> declares
  the resource \<open>invoices\<close> with the actions \<open>approve\<close> and \<open>view\<close>; the role
  \<open>finance\<close> grants (approve, invoices) and has the member alice; the group
  \<open>auditors\<close> holds carol and is a member of the role \<open>readonly\<close>, which grants
  (view, invoices).
\<close>

definition acme :: Organization where
  "acme =
     \<lparr>org_ID = ''a0'', org_Identifier = ''acme'', org_DisplayName = ''Acme'',
      org_API_KEY = ''key-acme'',
      org_Resources =
        [\<lparr>res_ID = ''d1'', res_Identifier = ''invoices'', res_DisplayName = ''Invoices'',
          res_Type = ''document'',
          res_Actions =
            [\<lparr>act_ID = ''c1'', act_Identifier = ''approve'', act_DisplayName = ''Approve''\<rparr>,
             \<lparr>act_ID = ''c2'', act_Identifier = ''view'', act_DisplayName = ''View''\<rparr>]\<rparr>],
      org_Users =
        [\<lparr>user_ID = ''u1'', user_Username = ''alice'', user_Identifier = ''alice'',
          user_UserProperties = [], user_Roles = [''f1''], user_Groups = []\<rparr>,
         \<lparr>user_ID = ''u2'', user_Username = ''bob'', user_Identifier = ''bob'',
          user_UserProperties = [], user_Roles = [], user_Groups = []\<rparr>,
         \<lparr>user_ID = ''u3'', user_Username = ''carol'', user_Identifier = ''carol'',
          user_UserProperties = [], user_Roles = [], user_Groups = [''e1'']\<rparr>],
      org_Roles =
        [\<lparr>role_ID = ''f1'', role_Identifier = ''finance'', role_DisplayName = ''Finance'',
          role_Users = [''u1''], role_Groups = [],
          role_Permissions = [\<lparr>perm_Action = ''approve'', perm_Resource = ''invoices''\<rparr>]\<rparr>,
         \<lparr>role_ID = ''f2'', role_Identifier = ''readonly'', role_DisplayName = ''Read only'',
          role_Users = [], role_Groups = [''e1''],
          role_Permissions = [\<lparr>perm_Action = ''view'', perm_Resource = ''invoices''\<rparr>]\<rparr>],
      org_Groups =
        [\<lparr>grp_ID = ''e1'', grp_Identifier = ''auditors'', grp_DisplayName = ''Auditors'',
          grp_Users = [''u3''], grp_Roles = [''f2'']\<rparr>]\<rparr>"

definition acme_store :: Store where
  "acme_store = \<lparr>st_Orgs = [acme], st_Tuples = []\<rparr>"

section \<open>The decision engine\<close>

text \<open>
  Modelled from the spec: the state of the permission service behind the handlers
  (\<^verbatim>\<open>permission.Service\<close>), which is missing from the sources; the definitions of this
  section follow the spec's component design. The engine is the entity store and the
  permission cache, keyed by (organization, subject, action, resource).
\<close>

type_synonym cache_key = "string \<times> string \<times> string \<times> string"

record Engine =
  eng_Store :: Store
  eng_Cache :: "cache_key \<rightharpoonup> bool"

text \<open>
  Modelled from the spec: the Subject Resolver, missing from the sources. The subject
  reference is a user id or a username; it resolves to the canonical user id, and fails
  with NotFound when the organization or the subject does not exist.
\<close>

definition ResolveSubject :: "Store \<Rightarrow> string \<Rightarrow> string \<Rightarrow> error + ObjectID" where
  "ResolveSubject db org_id subjectRef =
     (case find_org db org_id of
        None \<Rightarrow> Inl (NotFoundError ''Organization'')
      | Some org \<Rightarrow>
         (case find (\<lambda>u. Hex (user_ID u) = subjectRef \<or> user_Username u = subjectRef)
                 (org_Users org) of
            None \<Rightarrow> Inl (NotFoundError ''Subject'')
          | Some u \<Rightarrow> Inr (user_ID u)))"

text \<open>
  Modelled from the spec: the identity tokens of a user, missing from the sources: the
  user itself and every group it is a direct member of.
\<close>

definition identity_tokens :: "Organization \<Rightarrow> ObjectID \<Rightarrow> ObjectID list" where
  "identity_tokens org uid =
     uid # map grp_ID (filter (\<lambda>g. uid \<in> set (grp_Users g)) (org_Groups org))"

text \<open>
  Modelled from the spec: the candidate roles of the Check algorithm, missing from the
  sources: every role whose member users or member groups meet the identity tokens.
\<close>

definition candidate_roles :: "Organization \<Rightarrow> ObjectID list \<Rightarrow> Role list" where
  "candidate_roles org toks =
     filter (\<lambda>r. list_ex (\<lambda>t. t \<in> set (role_Users r)) toks
                \<or> list_ex (\<lambda>t. t \<in> set (role_Groups r)) toks)
       (org_Roles org)"

text \<open>
  Modelled from the spec: the decision of the Check algorithm, missing from the
  sources: true iff a candidate role holds the pair (action, resource), or a tuple of
  the organization names the subject, the action and the resource directly.
\<close>

definition decision :: "Store \<Rightarrow> cache_key \<Rightarrow> bool" where
  "decision db k =
     (case k of (org_id, uid, action, resource) \<Rightarrow>
        (case find_org db org_id of
           None \<Rightarrow> False
         | Some org \<Rightarrow>
            list_ex (\<lambda>r. \<lparr>perm_Action = action, perm_Resource = resource\<rparr> \<in> set (role_Permissions r))
              (candidate_roles org (identity_tokens org uid))
            \<or> list_ex (\<lambda>(owner, t). owner = org_id \<and> tup_Subject t = uid \<and> tup_Relation t = action
                                  \<and> tup_Object t = resource)
                 (st_Tuples db)))"

text \<open>
  Modelled from the spec: the single-pair Check, missing from the sources. It fails with
  NotFound when the organization does not exist, with InvalidInput when (action,
  resource) is not a declared pair, with NotFound when the subject does not exist;
  otherwise it answers from the cache and, on a miss, takes the decision from the store
  and caches it.
\<close>

definition Check ::
  "Engine \<Rightarrow> string \<Rightarrow> string \<Rightarrow> string \<Rightarrow> string \<Rightarrow> (error + bool) \<times> Engine" where
  "Check eng org_id subjectRef action resource =
     (case find_org (eng_Store eng) org_id of
        None \<Rightarrow> (Inl (NotFoundError ''Organization''), eng)
      | Some org \<Rightarrow>
         if \<not> mem_CheckResourceActionExists (eng_Store eng) org_id resource action
         then (Inl (InvalidInputError
                      (''Invalid permission, Resource : '' @ resource @ '' Action : '' @ action)),
               eng)
         else (case ResolveSubject (eng_Store eng) org_id subjectRef of
                 Inl e \<Rightarrow> (Inl e, eng)
               | Inr uid \<Rightarrow>
                  (case eng_Cache eng (org_id, uid, action, resource) of
                     Some b \<Rightarrow> (Inr b, eng)
                   | None \<Rightarrow>
                      (let b = decision (eng_Store eng) (org_id, uid, action, resource)
                       in (Inr b,
                           eng\<lparr>eng_Cache :=
                                 (eng_Cache eng)((org_id, uid, action, resource) \<mapsto> b)\<rparr>)))))"

text \<open>
  Modelled from the spec: the request shapes, missing from the sources:
  \<^verbatim>\<open>CheckRequestAll{subject, (action,resource)[]}\<close>, and
  \<^verbatim>\<open>CheckRequestWithPermissions\<close> with the subject, the actions and the one resource
  that the contract of CheckPermissions evaluates them against.
\<close>

record CheckRequestAll =
  cra_Subject :: string
  cra_Pairs :: "(string \<times> string) list"

record CheckRequestWithPermissions =
  crp_Subject :: string
  crp_Actions :: "string list"
  crp_Resource :: string

text \<open>
  Modelled from the spec: the loop of the batch variants, missing from the sources. It
  evaluates Check for each (action, resource) pair in the order of the input, one after
  the other on the same engine, and stops at the first Check that fails.
\<close>

fun check_each ::
  "Engine \<Rightarrow> string \<Rightarrow> string \<Rightarrow> (string \<times> string) list \<Rightarrow> (error + bool list) \<times> Engine" where
  "check_each eng org_id subjectRef [] = (Inr [], eng)"
| "check_each eng org_id subjectRef (pair # rest) =
     (case Check eng org_id subjectRef (fst pair) (snd pair) of
        (Inl e, eng') \<Rightarrow> (Inl e, eng')
      | (Inr b, eng') \<Rightarrow>
         (case check_each eng' org_id subjectRef rest of
            (Inl e, eng'') \<Rightarrow> (Inl e, eng'')
          | (Inr bs, eng'') \<Rightarrow> (Inr (b # bs), eng'')))"

text \<open>
  Modelled from the spec: \<^verbatim>\<open>CheckAll\<close>, missing from the sources: a boolean list
  parallel to the pairs of the request. The second argument of the service methods is
  the namespace the handlers pass (\<^verbatim>\<open>"permission"\<close>).
\<close>

definition CheckAll ::
  "Engine \<Rightarrow> string \<Rightarrow> string \<Rightarrow> CheckRequestAll \<Rightarrow> (error + bool list) \<times> Engine" where
  "CheckAll eng org_id namespace input =
     check_each eng org_id (cra_Subject input) (cra_Pairs input)"

text \<open>
  Modelled from the spec: \<^verbatim>\<open>CheckPermissions\<close>, missing from the sources: Check for
  each action against the same resource, returned as the per-action boolean map, kept
  as the list of (action, result) in the order of the actions.
\<close>

definition CheckPermissions ::
  "Engine \<Rightarrow> string \<Rightarrow> string \<Rightarrow> CheckRequestWithPermissions
     \<Rightarrow> (error + (string \<times> bool) list) \<times> Engine" where
  "CheckPermissions eng org_id namespace input =
     (case check_each eng org_id (crp_Subject input)
             (map (\<lambda>a. (a, crp_Resource input)) (crp_Actions input)) of
        (Inl e, eng') \<Rightarrow> (Inl e, eng')
      | (Inr bs, eng') \<Rightarrow> (Inr (zip (crp_Actions input) bs), eng'))"

text \<open>
  The spec's words for the batch variants: the results of calling Check for each pair on
  its own, every call starting from the same engine, collected in the order of the
  input; the first failure, if there is one, is the failure of the batch.
\<close>

fun collect :: "(error + bool) list \<Rightarrow> error + bool list" where
  "collect [] = Inr []"
| "collect (Inl e # rest) = Inl e"
| "collect (Inr b # rest) = (case collect rest of Inl e \<Rightarrow> Inl e | Inr bs \<Rightarrow> Inr (b # bs))"

definition pointwise_Check ::
  "Engine \<Rightarrow> string \<Rightarrow> string \<Rightarrow> (string \<times> string) list \<Rightarrow> error + bool list" where
  "pointwise_Check eng org_id subjectRef pairs =
     collect (map (\<lambda>pair. fst (Check eng org_id subjectRef (fst pair) (snd pair))) pairs)"

section \<open>The permission handlers (\<^verbatim>\<open>package permission\<close>)\<close>

text \<open>
  What a handler leaves behind: the response written with \<^verbatim>\<open>c.JSON(status, body)\<close>
  (the handler then returns \<^verbatim>\<open>nil\<close>), or the error it returns to the framework.
\<close>

datatype 'a reply = JSON nat 'a | Err error

text \<open>
  \<^verbatim>\<open>func (r permission) checkpermissions\<close> and \<^verbatim>\<open>func (r permission) checkall\<close>.
  \<open>bound\<close> is the result of \<^verbatim>\<open>c.Bind(&input)\<close>, \<open>org\<close> the path parameter,
  \<open>service\<close> the method of the service the handler calls on the state \<open>st\<close>, and
  \<open>HandleError\<close> the function \<^verbatim>\<open>util.HandleError\<close>, which is not among the sources.
\<close>

definition checkpermissions ::
  "(error \<Rightarrow> error) \<Rightarrow> ('st \<Rightarrow> string \<Rightarrow> string \<Rightarrow> 'req \<Rightarrow> (error + 'res) \<times> 'st)
     \<Rightarrow> 'st \<Rightarrow> string \<Rightarrow> error + 'req \<Rightarrow> 'res reply \<times> 'st" where
  "checkpermissions HandleError service st org bound =
     (case bound of
        Inl err \<Rightarrow> (Err (HTTPError 400 ''Invalid inputs. Please check your inputs''), st)
      | Inr input \<Rightarrow>
         (case service st org ''permission'' input of
            (Inl err, st') \<Rightarrow> (Err (HandleError err), st')
          | (Inr allow, st') \<Rightarrow> (JSON 200 allow, st')))"

definition checkall ::
  "(error \<Rightarrow> error) \<Rightarrow> ('st \<Rightarrow> string \<Rightarrow> string \<Rightarrow> 'req \<Rightarrow> (error + 'res) \<times> 'st)
     \<Rightarrow> 'st \<Rightarrow> string \<Rightarrow> error + 'req \<Rightarrow> 'res reply \<times> 'st" where
  "checkall HandleError service st org bound =
     (case bound of
        Inl err \<Rightarrow> (Err (HTTPError 400 ''Invalid inputs. Please check your inputs''), st)
      | Inr input \<Rightarrow>
         (case service st org ''permission'' input of
            (Inl err, st') \<Rightarrow> (Err (HandleError err), st')
          | (Inr allow, st') \<Rightarrow> (JSON 200 allow, st')))"

text \<open>
  \<^verbatim>\<open>func (r permission) patchPermissions\<close>. The error of the service is assigned to
  the blank identifier (\<^verbatim>\<open>_ = r.service.PatchPermissions(...)\<close>) and the handler writes
  \<^verbatim>\<open>c.JSON(http.StatusOK, "")\<close>.
\<close>

definition patchPermissions ::
  "('st \<Rightarrow> string \<Rightarrow> string \<Rightarrow> 'req \<Rightarrow> error option \<times> 'st)
     \<Rightarrow> 'st \<Rightarrow> string \<Rightarrow> error + 'req \<Rightarrow> string reply \<times> 'st" where
  "patchPermissions service st org_id bound =
     (case bound of
        Inl err \<Rightarrow> (Err (HTTPError 400 ''Invalid inputs. Please check your inputs''), st)
      | Inr input \<Rightarrow>
         (case service st org_id ''permission'' input of
            (ignored, st') \<Rightarrow> (JSON 200 [], st')))"

section \<open>The machine channel (\<^verbatim>\<open>internal/check/grpc.go\<close>)\<close>

text \<open>
  \<^verbatim>\<open>metadata.MD\<close> is \<^verbatim>\<open>map[string][]string\<close>; \<^verbatim>\<open>md.Get(k)\<close> reads the entry of the
  lower-cased key, and yields the empty slice when there is none.
\<close>

type_synonym MD = "string \<rightharpoonup> string list"

definition ToLower_char :: "char \<Rightarrow> char" where
  "ToLower_char c =
     (if (65::nat) \<le> of_char c \<and> of_char c \<le> (90::nat)
      then char_of (of_char c + (32::nat)) else c)"

definition ToLower :: "string \<Rightarrow> string" where
  "ToLower s = map ToLower_char s"

definition MD_Get :: "MD \<Rightarrow> string \<Rightarrow> string list" where
  "MD_Get md k = (case md (ToLower k) of None \<Rightarrow> [] | Some vs \<Rightarrow> vs)"

text \<open>A call either returns or panics; Go's index expression panics out of range.\<close>

datatype 'a outcome = Return 'a | Panic string

record GrpcCheckRequest =
  greq_Organization :: string
  greq_Username :: string
  greq_Action :: string
  greq_Resource :: string

record CheckRequest =
  creq_Username :: string
  creq_Action :: string
  creq_Resource :: string

text \<open>
  \<^verbatim>\<open>func (s grpcService) Check\<close>. \<open>ctx\<close> is what
  \<^verbatim>\<open>metadata.FromIncomingContext(ctx)\<close> finds: \<open>None\<close> when the context carries no
  metadata (\<^verbatim>\<open>ok\<close> is false). \<open>service_Check\<close> is the method \<^verbatim>\<open>s.service.Check\<close>, not
  among the sources. The result is the pair the Go method returns: the error, or the
  \<^verbatim>\<open>Allow\<close> of the response.
\<close>

definition grpc_Check ::
  "(error \<Rightarrow> error) \<Rightarrow> (string \<Rightarrow> CheckRequest \<Rightarrow> string \<Rightarrow> error + bool)
     \<Rightarrow> MD option \<Rightarrow> GrpcCheckRequest \<Rightarrow> (error + bool) outcome" where
  "grpc_Check HandleError service_Check ctx req =
     (case ctx of
        None \<Rightarrow> Return (Inl (OtherError ''missing metadata from request''))
      | Some md \<Rightarrow>
         (case MD_Get md ''API_KEY'' of
            [] \<Rightarrow> Panic ''runtime error: index out of range [0] with length 0''
          | apiKey # others \<Rightarrow>
             (case service_Check (greq_Organization req)
                     \<lparr>creq_Username = greq_Username req, creq_Action = greq_Action req,
                      creq_Resource = greq_Resource req\<rparr> apiKey of
                Inl err \<Rightarrow> Return (Inl (HandleError err))
              | Inr allow \<Rightarrow> Return (Inr allow))))"

section \<open>The group repository (\<^verbatim>\<open>src/repositories/group.go\<close>)\<close>

text \<open>
  The two tables the SQL of the file names, with the columns it names. The schema is
  not among the sources, so the tables are lists of rows without a constraint of their
  own; what the database refuses is part of \<open>faults\<close> below.
\<close>

record tenant_group_row =
  tg_group_id :: string
  tg_group_key :: string
  tg_name :: string
  tg_tenant_id :: string

record group_user_row =
  gu_group_id :: string
  gu_user_id :: string

text \<open>
  The statements PatchGroup executes on its transaction, with their arguments
  (group id, user id), and the calls the file makes to the database: they are what
  can fail.
\<close>

datatype stmt =
    INSERT_group_user string string
  | DELETE_group_user string string

datatype db_call =
    DB_Begin
  | DB_Prepare_insert
  | DB_Prepare_delete
  | DB_Exec stmt
  | DB_Commit
  | DB_Query_group string string
  | DB_Query_group_users string
  | DB_Query_group_exists_id string
  | DB_Query_group_exists_key string string
  | DB_Query_user_in_group string string

text \<open>
  The database behind \<^verbatim>\<open>config.DB\<close>: the committed tables, and the error, if any, with
  which it answers a call. The first argument of \<open>faults\<close> is the list of statements
  already executed on the open transaction (empty for a call outside one), so that a
  refusal may depend on them, as the violation of a constraint does.
\<close>

record SqlDB =
  tenant_group :: "tenant_group_row list"
  group_user :: "group_user_row list"
  faults :: "stmt list \<Rightarrow> db_call \<Rightarrow> error option"

text \<open>
  The structs of package \<^verbatim>\<open>models\<close> that the file uses, with the fields it reads and
  writes.
\<close>

record UserID =
  uid_UserID :: string

record MGroup =
  mg_ID :: string
  mg_Key :: string
  mg_Name :: string
  mg_TenantID :: string
  mg_Users :: "UserID list"



text \<open>
  \<^verbatim>\<open>func GetGroup\<close>: the row of the group in the tenant
  (\<^verbatim>\<open>WHERE tenant_id = $1 AND group_id = $2\<close>), an error when there is none, then the
  users of the group (\<^verbatim>\<open>WHERE group_id = $1\<close>). The error of either query is returned.
\<close>

definition GetGroup :: "string \<Rightarrow> string \<Rightarrow> SqlDB \<Rightarrow> error + MGroup" where
  "GetGroup tenant_id gid db =
     (case faults db [] (DB_Query_group tenant_id gid) of
        Some err \<Rightarrow> Inl err
      | None \<Rightarrow>
         (case find (\<lambda>row. tg_tenant_id row = tenant_id \<and> tg_group_id row = gid)
                 (tenant_group db) of
            None \<Rightarrow> Inl (OtherError ''sql: no rows in result set'')
          | Some row \<Rightarrow>
             (case faults db [] (DB_Query_group_users gid) of
                Some err \<Rightarrow> Inl err
              | None \<Rightarrow>
                 Inr \<lparr>mg_ID = tg_group_id row, mg_Key = tg_group_key row,
                      mg_Name = tg_name row, mg_TenantID = tg_tenant_id row,
                      mg_Users =
                        map (\<lambda>r. \<lparr>uid_UserID = gu_user_id r\<rparr>)
                          (filter (\<lambda>r. gu_group_id r = gid) (group_user db))\<rparr>)))"

text \<open>
  \<^verbatim>\<open>func CheckGroupExistsById\<close>:
  \<^verbatim>\<open>SELECT exists (SELECT group_id FROM tenant_group WHERE group_id = $1)\<close>. The result
  is the error and the value of \<^verbatim>\<open>*exists\<close>; on an error nothing is scanned into it,
  and it is taken to be the \<^verbatim>\<open>false\<close> of a fresh \<^verbatim>\<open>bool\<close>.
\<close>

definition CheckGroupExistsById :: "string \<Rightarrow> SqlDB \<Rightarrow> error option \<times> bool" where
  "CheckGroupExistsById gid db =
     (case faults db [] (DB_Query_group_exists_id gid) of
        Some err \<Rightarrow> (Some err, False)
      | None \<Rightarrow> (None, list_ex (\<lambda>row. tg_group_id row = gid) (tenant_group db)))"

text \<open>
  \<^verbatim>\<open>func CheckGroupExistsByKey\<close>:
  \<^verbatim>\<open>... FROM tenant_group WHERE tenant_id = $1 AND group_key = $2\<close>.
\<close>

definition CheckGroupExistsByKey :: "string \<Rightarrow> string \<Rightarrow> SqlDB \<Rightarrow> error option \<times> bool" where
  "CheckGroupExistsByKey tenant_id key db =
     (case faults db [] (DB_Query_group_exists_key tenant_id key) of
        Some err \<Rightarrow> (Some err, False)
      | None \<Rightarrow>
         (None, list_ex (\<lambda>row. tg_tenant_id row = tenant_id \<and> tg_group_key row = key)
                  (tenant_group db)))"

text \<open>
  \<^verbatim>\<open>func IsUserInGroup\<close>:
  \<^verbatim>\<open>... FROM group_user WHERE group_id = $1 AND user_id = $2\<close>. On an error nothing is
  scanned into \<^verbatim>\<open>*exists\<close>, which PatchGroup declares just before the call
  (\<^verbatim>\<open>var exists bool\<close>, false).
\<close>

definition IsUserInGroup :: "string \<Rightarrow> string \<Rightarrow> SqlDB \<Rightarrow> error option \<times> bool" where
  "IsUserInGroup groupId userId db =
     (case faults db [] (DB_Query_user_in_group groupId userId) of
        Some err \<Rightarrow> (Some err, False)
      | None \<Rightarrow>
         (None, list_ex (\<lambda>row. gu_group_id row = groupId \<and> gu_user_id row = userId)
                  (group_user db)))"


text \<open>
  A function of the file either returns, or the process exits in
  \<^verbatim>\<open>log.Fatal(err)\<close>, which prints the error and calls \<^verbatim>\<open>os.Exit(1)\<close>.
\<close>

datatype 'a run = Returns 'a | Exits error









section \<open>The resource service (\<^verbatim>\<open>internal/resource/service.go\<close>)\<close>

text \<open>
  \<^verbatim>\<open>entity.Resource\<close> is not among the sources; the service reads and writes its
  fields \<^verbatim>\<open>ID\<close>, \<^verbatim>\<open>Key\<close> and \<^verbatim>\<open>Name\<close>.
\<close>

record EResource =
  eres_ID :: string
  eres_Key :: string
  eres_Name :: string

record CreateResourceRequest =
  cres_Key :: string
  cres_Name :: string
  cres_OrgID :: string

record UpdateResourceRequest =
  ures_Name :: string

text \<open>
  The interface \<^verbatim>\<open>Repository\<close> of the package, as the service calls it; its
  implementation is not among the sources. \<^verbatim>\<open>ExistByKey\<close> is called with the context
  and the key alone.
\<close>

record 'db ResourceRepository =
  rr_Get :: "'db \<Rightarrow> string \<Rightarrow> string \<Rightarrow> error + EResource"
  rr_ExistByKey :: "'db \<Rightarrow> string \<Rightarrow> bool"
  rr_Create :: "'db \<Rightarrow> string \<Rightarrow> EResource \<Rightarrow> error option \<times> 'db"
  rr_Update :: "'db \<Rightarrow> string \<Rightarrow> EResource \<Rightarrow> error option \<times> 'db"
  rr_Delete :: "'db \<Rightarrow> string \<Rightarrow> string \<Rightarrow> error option \<times> 'db"

text \<open>
  \<^verbatim>\<open>CreateResourceRequest.Validate\<close> requires the key; \<^verbatim>\<open>UpdateResourceRequest.Validate\<close>
  has no rule and accepts every request.
\<close>

definition CreateResourceRequest_Validate :: "CreateResourceRequest \<Rightarrow> bool" where
  "CreateResourceRequest_Validate m = (cres_Key m \<noteq> [])"

definition UpdateResourceRequest_Validate :: "UpdateResourceRequest \<Rightarrow> bool" where
  "UpdateResourceRequest_Validate m = True"

definition resource_Get ::
  "'db ResourceRepository \<Rightarrow> 'db \<Rightarrow> string \<Rightarrow> string \<Rightarrow> error + EResource" where
  "resource_Get repo db org_id rid =
     (case rr_Get repo db org_id rid of
        Inl err \<Rightarrow> Inl (NotFoundError ''Resource'')
      | Inr resource \<Rightarrow> Inr resource)"

text \<open>
  \<^verbatim>\<open>func (s service) Create\<close>. \<open>new_id\<close> is the value of \<^verbatim>\<open>entity.GenerateID()\<close>.
\<close>

definition resource_Create ::
  "'db ResourceRepository \<Rightarrow> string \<Rightarrow> 'db \<Rightarrow> string \<Rightarrow> CreateResourceRequest
     \<Rightarrow> (error + EResource) \<times> 'db" where
  "resource_Create repo new_id db org_id req =
     (if \<not> CreateResourceRequest_Validate req
      then (Inl (InvalidInputError ''Invalid input for resource.''), db)
      else if rr_ExistByKey repo db (cres_Key req)
      then (Inl (AlreadyExistsError (''Resource : '' @ cres_Key req @ '' already exists.'')), db)
      else (case rr_Create repo db org_id
                    \<lparr>eres_ID = new_id, eres_Key = cres_Key req, eres_Name = cres_Name req\<rparr> of
              (Some err, db') \<Rightarrow> (Inl err, db')
            | (None, db') \<Rightarrow> (resource_Get repo db' org_id new_id, db')))"

text \<open>\<^verbatim>\<open>func (s service) Update\<close>.\<close>

definition resource_Update ::
  "'db ResourceRepository \<Rightarrow> 'db \<Rightarrow> string \<Rightarrow> string \<Rightarrow> UpdateResourceRequest
     \<Rightarrow> (error + EResource) \<times> 'db" where
  "resource_Update repo db org_id rid req =
     (if \<not> UpdateResourceRequest_Validate req
      then (Inl (InvalidInputError ''Invalid input for resource.''), db)
      else (case resource_Get repo db org_id rid of
              Inl err \<Rightarrow> (Inl (NotFoundError (''Resource '' @ rid @ '' not exists.'')), db)
            | Inr resource \<Rightarrow>
               (case rr_Update repo db org_id (resource\<lparr>eres_Name := ures_Name req\<rparr>) of
                  (Some err, db') \<Rightarrow> (Inl err, db')
                | (None, db') \<Rightarrow> (Inr (resource\<lparr>eres_Name := ures_Name req\<rparr>), db'))))"

text \<open>
  Modelled from the spec: an implementation of the resource Repository, which is
  missing from the sources. The store is the list of the resources, each with the
  organization that owns it. \<^verbatim>\<open>ExistByKey\<close> receives no organization, so it can only
  look for the key among all the resources.
\<close>

type_synonym ResourceStore = "(string \<times> EResource) list"

definition rs_Get :: "ResourceStore \<Rightarrow> string \<Rightarrow> string \<Rightarrow> error + EResource" where
  "rs_Get db org_id rid =
     (case find (\<lambda>(owner, r). owner = org_id \<and> eres_ID r = rid) db of
        None \<Rightarrow> Inl (OtherError ''sql: no rows in result set'')
      | Some (owner, r) \<Rightarrow> Inr r)"

text \<open>Modelled from the spec: \<^verbatim>\<open>ExistByKey\<close> of the resource Repository, missing from the sources.\<close>

definition rs_ExistByKey :: "ResourceStore \<Rightarrow> string \<Rightarrow> bool" where
  "rs_ExistByKey db key = list_ex (\<lambda>(owner, r). eres_Key r = key) db"

text \<open>Modelled from the spec: \<^verbatim>\<open>Create\<close> of the resource Repository, missing from the sources.\<close>

definition rs_Create :: "ResourceStore \<Rightarrow> string \<Rightarrow> EResource \<Rightarrow> error option \<times> ResourceStore" where
  "rs_Create db org_id resource = (None, db @ [(org_id, resource)])"

text \<open>
  Modelled from the spec: \<^verbatim>\<open>Update\<close> of the resource Repository, missing from the
  sources: the stored resource of that organization and id is replaced by the given one.
\<close>

definition rs_Update :: "ResourceStore \<Rightarrow> string \<Rightarrow> EResource \<Rightarrow> error option \<times> ResourceStore" where
  "rs_Update db org_id resource =
     (None, map (\<lambda>(owner, r). if owner = org_id \<and> eres_ID r = eres_ID resource
                              then (owner, resource) else (owner, r)) db)"

text \<open>Modelled from the spec: \<^verbatim>\<open>Delete\<close> of the resource Repository, missing from the sources.\<close>

definition rs_Delete :: "ResourceStore \<Rightarrow> string \<Rightarrow> string \<Rightarrow> error option \<times> ResourceStore" where
  "rs_Delete db org_id rid =
     (None, filter (\<lambda>(owner, r). \<not> (owner = org_id \<and> eres_ID r = rid)) db)"

definition rs_repo :: "ResourceStore ResourceRepository" where
  "rs_repo =
     \<lparr>rr_Get = rs_Get, rr_ExistByKey = rs_ExistByKey, rr_Create = rs_Create,
      rr_Update = rs_Update, rr_Delete = rs_Delete\<rparr>"

definition two_orgs :: ResourceStore where
  "two_orgs =
     [(''a0'', \<lparr>eres_ID = ''d1'', eres_Key = ''invoices'', eres_Name = ''Invoices''\<rparr>),
      (''b0'', \<lparr>eres_ID = ''d2'', eres_Key = ''reports'', eres_Name = ''Reports''\<rparr>)]"

section \<open>The earlier resource repository (\<^verbatim>\<open>package repositories\<close>)\<close>












definition group_db :: SqlDB where
  "group_db =
     \<lparr>tenant_group =
        [\<lparr>tg_group_id = ''g1'', tg_group_key = ''auditors'', tg_name = ''Auditors'',
          tg_tenant_id = ''t1''\<rparr>,
         \<lparr>tg_group_id = ''g2'', tg_group_key = ''staff'', tg_name = ''Staff'',
          tg_tenant_id = ''t2''\<rparr>],
      group_user =
        [\<lparr>gu_group_id = ''g1'', gu_user_id = ''carol''\<rparr>,
         \<lparr>gu_group_id = ''g2'', gu_user_id = ''dave''\<rparr>],
      faults = (\<lambda>tx call. None)\<rparr>"

section \<open>Facts used by the concrete evaluations\<close>

lemmas mem_defs = mem_repo_def mem_Get_def mem_Create_def mem_Update_def mem_PatchPermission_def
  mem_CheckRoleExistsByIdentifier_def mem_CheckUserExistById_def
  mem_CheckUserAlreadyAssignToRoleById_def mem_CheckResourceActionExists_def
  find_org_def find_role_def update_org_def update_role_def link_users_def Hex_def
  acme_store_def acme_def

lemmas engine_defs = Check_def ResolveSubject_def decision_def candidate_roles_def
  identity_tokens_def

section \<open>Patching the permissions of a role\<close>

text \<open>
  Claim C1. PatchPermissions is to apply the additions and the removals of the request
  to the role's permission set in one write, so that after a patch that removes
  (approve, invoices) from the role finance the pair is gone and Check for alice is
  false. The service hands the store the additions only. On the scenario of the spec
  the patch succeeds and leaves the store as it was, Check for alice is still true;
  the store's own write, given the removal, would have made it false.
\<close>

theorem PatchPermission_drops_removals:
  "PatchPermission mem_repo acme_store ''a0'' ''f1''
      \<lparr>prr_AddedPermission = [],
       prr_RemovedPermission = [\<lparr>perm_Action = ''approve'', perm_Resource = ''invoices''\<rparr>]\<rparr>
     = (None, acme_store)
   \<and> fst (Check \<lparr>eng_Store = acme_store, eng_Cache = Map.empty\<rparr>
             ''a0'' ''alice'' ''approve'' ''invoices'') = Inr True
   \<and> fst (Check \<lparr>eng_Store = snd (mem_PatchPermission acme_store ''a0'' ''f1''
                      \<lparr>pr_AddedPermission = [],
                       pr_RemovedPermission =
                         [\<lparr>perm_Action = ''approve'', perm_Resource = ''invoices''\<rparr>]\<rparr>),
                  eng_Cache = Map.empty\<rparr>
             ''a0'' ''alice'' ''approve'' ''invoices'') = Inr False"
  by (simp add: PatchPermission_def mem_defs engine_defs)

lemma check_added_find:
  "check_added repo db org_id ps =
     map_option (\<lambda>p. InvalidInputError (''Invalid permission, Resource : '' @ perm_Resource p @
                   '' Action : '' @ perm_Action p))
       (find (\<lambda>p. \<not> repo_CheckResourceActionExists repo db org_id (perm_Resource p) (perm_Action p))
          ps)"
  by (induction ps) simp_all

text \<open>
  Claim C5. When some added permission of a PatchPermissions request is not a declared
  (action, resource) pair, the operation fails with InvalidInput naming the first such
  pair, and the store is left as it was: nothing of the batch is written.
\<close>

theorem PatchPermission_rejects_undeclared:
  assumes "find (\<lambda>p. \<not> repo_CheckResourceActionExists repo db org_id (perm_Resource p) (perm_Action p))
             (prr_AddedPermission req) = Some p"
  shows "PatchPermission repo db org_id role_id req =
           (Some (InvalidInputError (''Invalid permission, Resource : '' @ perm_Resource p @
                   '' Action : '' @ perm_Action p)), db)"
  using assms by (simp add: PatchPermission_def check_added_find)

theorem PatchPermission_rejects_undeclared_witness:
  "find (\<lambda>p. \<not> repo_CheckResourceActionExists mem_repo acme_store ''a0''
                 (perm_Resource p) (perm_Action p))
      [\<lparr>perm_Action = ''approve'', perm_Resource = ''invoices''\<rparr>,
       \<lparr>perm_Action = ''delete'', perm_Resource = ''invoices''\<rparr>,
       \<lparr>perm_Action = ''view'', perm_Resource = ''ledger''\<rparr>]
     = Some \<lparr>perm_Action = ''delete'', perm_Resource = ''invoices''\<rparr>
   \<and> PatchPermission mem_repo acme_store ''a0'' ''f1''
           \<lparr>prr_AddedPermission =
              [\<lparr>perm_Action = ''approve'', perm_Resource = ''invoices''\<rparr>,
               \<lparr>perm_Action = ''delete'', perm_Resource = ''invoices''\<rparr>,
               \<lparr>perm_Action = ''view'', perm_Resource = ''ledger''\<rparr>],
            prr_RemovedPermission = []\<rparr>
     = (Some (InvalidInputError ''Invalid permission, Resource : invoices Action : delete''),
        acme_store)"
proof -
  have first_offending:
    "find (\<lambda>p. \<not> repo_CheckResourceActionExists mem_repo acme_store ''a0''
                   (perm_Resource p) (perm_Action p))
       [\<lparr>perm_Action = ''approve'', perm_Resource = ''invoices''\<rparr>,
        \<lparr>perm_Action = ''delete'', perm_Resource = ''invoices''\<rparr>,
        \<lparr>perm_Action = ''view'', perm_Resource = ''ledger''\<rparr>]
      = Some \<lparr>perm_Action = ''delete'', perm_Resource = ''invoices''\<rparr>"
    by (simp add: mem_defs)
  show ?thesis
    using first_offending
      PatchPermission_rejects_undeclared [where repo = mem_repo and db = acme_store
        and org_id = "''a0''" and role_id = "''f1''"
        and p = "\<lparr>perm_Action = ''delete'', perm_Resource = ''invoices''\<rparr>"
        and req = "\<lparr>prr_AddedPermission =
              [\<lparr>perm_Action = ''approve'', perm_Resource = ''invoices''\<rparr>,
               \<lparr>perm_Action = ''delete'', perm_Resource = ''invoices''\<rparr>,
               \<lparr>perm_Action = ''view'', perm_Resource = ''ledger''\<rparr>],
            prr_RemovedPermission = []\<rparr>"]
    by simp
qed

section \<open>Tenant scoping of the queries\<close>

text \<open>
  Claim C2. Every query is to be scoped by the organization, so that an entity of one
  organization is never observed or matched from another. The existence check of a
  group by id and the membership check take no tenant: the group g1 of tenant t1 and
  its member are found by a caller of any tenant, while the scoped read of g1 and the
  scoped check of its key for tenant t2 find nothing. The duplicate-key check of
  resource Create takes no organization either: the key invoices of organization a0
  makes Create fail in b0, which owns no such resource.
\<close>

theorem queries_without_tenant:
  "CheckGroupExistsById ''g1'' group_db = (None, True)
   \<and> GetGroup ''t2'' ''g1'' group_db = Inl (OtherError ''sql: no rows in result set'')
   \<and> CheckGroupExistsByKey ''t2'' ''auditors'' group_db = (None, False)
   \<and> IsUserInGroup ''g1'' ''carol'' group_db = (None, True)
   \<and> rs_Get two_orgs ''b0'' ''d1'' = Inl (OtherError ''sql: no rows in result set'')
   \<and> resource_Create rs_repo ''d9'' two_orgs ''b0''
        \<lparr>cres_Key = ''invoices'', cres_Name = ''Invoices of b0'', cres_OrgID = ''b0''\<rparr>
     = (Inl (AlreadyExistsError ''Resource : invoices already exists.''), two_orgs)"
  by (simp add: CheckGroupExistsById_def CheckGroupExistsByKey_def GetGroup_def
      IsUserInGroup_def group_db_def
      rs_Get_def two_orgs_def resource_Create_def rs_repo_def rs_ExistByKey_def
      CreateResourceRequest_Validate_def)

section \<open>The boundary layers\<close>

text \<open>
  Claim C3. A Check on the machine channel whose metadata has no API key is to return
  an error and never to panic. When the context carries metadata without the entry
  \<open>API_KEY\<close>, the handler indexes the empty slice and panics, whatever the service
  and the request are.
\<close>

theorem grpc_Check_panics_without_api_key:
  "grpc_Check HandleError service_Check (Some Map.empty) req
     = Panic ''runtime error: index out of range [0] with length 0''"
  by (simp add: grpc_Check_def MD_Get_def)

text \<open>
  Claim C4. A PatchPermissions request whose engine operation fails is to be answered
  with the status of the error, never with a success status. The handler answers every
  request it could bind with status 200, whatever the service returns; so it does for a
  service that fails with InvalidInput.
\<close>

theorem patchPermissions_acknowledges_failure:
  "fst (patchPermissions service st org_id (Inr input)) = JSON 200 []
   \<and> patchPermissions
        (\<lambda>st org_id namespace input. (Some (InvalidInputError ''undeclared pair''), st))
        acme_store ''a0''
        (Inr \<lparr>prr_AddedPermission = [\<lparr>perm_Action = ''delete'', perm_Resource = ''invoices''\<rparr>],
              prr_RemovedPermission = []\<rparr>)
     = (JSON 200 [], acme_store)"
  by (simp add: patchPermissions_def split: prod.splits)

section \<open>Users referenced by a role\<close>

lemma check_users_None:
  "check_users repo db org_id path us = None
     \<longleftrightarrow> list_all (\<lambda>u. repo_CheckUserExistById repo db org_id (Hex u)) us"
  by (induction us) simp_all

lemma check_users_Some:
  "check_users repo db org_id path us = Some e \<Longrightarrow> is_InvalidInput e"
  by (induction us) (auto split: if_splits)

lemma check_users_missing:
  assumes "list_ex (\<lambda>u. \<not> repo_CheckUserExistById repo db org_id (Hex u)) us"
  shows "\<exists>e. check_users repo db org_id path us = Some e \<and> is_InvalidInput e"
proof (cases "check_users repo db org_id path us")
  case None
  then have "list_all (\<lambda>u. repo_CheckUserExistById repo db org_id (Hex u)) us"
    by (simp add: check_users_None)
  with assms show ?thesis
    by (auto simp add: list_all_iff list_ex_iff)
next
  case (Some e)
  then show ?thesis by (simp add: check_users_Some)
qed

text \<open>
  Claim C7, as stated, fails: with a user the organization does not know, Update of a
  role that does not exist fails with NotFound, and Create under an identifier that is
  taken fails with AlreadyExists; neither fails with InvalidInput, because the check of
  the role comes before the checks of the users.
\<close>

theorem role_mutation_unknown_user_counterexample:
  "\<not> repo_CheckUserExistById mem_repo acme_store ''a0'' (Hex ''u9'')
   \<and> role_Update mem_repo acme_store ''a0'' ''f9''
        \<lparr>urr_DisplayName = None, urr_AddedUsers = [''u9''], urr_RemovedUser = []\<rparr>
      = (Inl (NotFoundError ''Role f9 not exists.''), acme_store)
   \<and> role_Create mem_repo ''f3'' acme_store ''a0''
        \<lparr>crr_Identifier = ''finance'', crr_DisplayName = ''Finance again'', crr_Users = [''u9'']\<rparr>
      = (Inl (AlreadyExistsError ''Role : finance already exists.''), acme_store)"
  by (simp add: role_Update_def role_Create_def role_Get_def CreateRoleRequest_Validate_def mem_defs)

text \<open>
  Claim C7, amended. When a user listed in a role Create or Update request (initial,
  added or removed) does not exist in the organization, the operation fails and the
  store is left as it was. The failure is InvalidInput, except where the check that
  comes first already fails: Create under an identifier that already names a role
  fails with AlreadyExists, and Update of a role the store does not find fails with
  NotFound.
\<close>

theorem role_mutation_unknown_user:
  "(list_ex (\<lambda>u. \<not> repo_CheckUserExistById repo db org_id (Hex u)) (crr_Users creq)
     \<longrightarrow> snd (role_Create repo roleId db org_id creq) = db
         \<and> (if crr_Identifier creq \<noteq> []
                \<and> repo_CheckRoleExistsByIdentifier repo db org_id (crr_Identifier creq)
             then fst (role_Create repo roleId db org_id creq)
                    = Inl (AlreadyExistsError (''Role : '' @ crr_Identifier creq @ '' already exists.''))
             else \<exists>e. fst (role_Create repo roleId db org_id creq) = Inl e \<and> is_InvalidInput e))
   \<and> (list_ex (\<lambda>u. \<not> repo_CheckUserExistById repo db org_id (Hex u))
          (urr_AddedUsers ureq @ urr_RemovedUser ureq)
     \<longrightarrow> snd (role_Update repo db org_id rid ureq) = db
         \<and> (if isl (repo_Get repo db org_id rid)
             then fst (role_Update repo db org_id rid ureq)
                    = Inl (NotFoundError (''Role '' @ rid @ '' not exists.''))
             else \<exists>e. fst (role_Update repo db org_id rid ureq) = Inl e \<and> is_InvalidInput e))"
proof (intro conjI impI)
  assume missing: "list_ex (\<lambda>u. \<not> repo_CheckUserExistById repo db org_id (Hex u)) (crr_Users creq)"
  from check_users_missing [OF missing, of "''Invalid user id ''"]
  obtain e where e: "check_users repo db org_id ''Invalid user id '' (crr_Users creq) = Some e"
    and inv: "is_InvalidInput e"
    by blast
  show "snd (role_Create repo roleId db org_id creq) = db"
    by (simp add: role_Create_def e)
  show "if crr_Identifier creq \<noteq> []
                \<and> repo_CheckRoleExistsByIdentifier repo db org_id (crr_Identifier creq)
             then fst (role_Create repo roleId db org_id creq)
                    = Inl (AlreadyExistsError (''Role : '' @ crr_Identifier creq @ '' already exists.''))
             else \<exists>e. fst (role_Create repo roleId db org_id creq) = Inl e \<and> is_InvalidInput e"
    using inv by (auto simp add: role_Create_def e CreateRoleRequest_Validate_def)
next
  assume missing: "list_ex (\<lambda>u. \<not> repo_CheckUserExistById repo db org_id (Hex u))
          (urr_AddedUsers ureq @ urr_RemovedUser ureq)"
  show "snd (role_Update repo db org_id rid ureq) = db"
  proof (cases "list_ex (\<lambda>u. \<not> repo_CheckUserExistById repo db org_id (Hex u)) (urr_AddedUsers ureq)")
    case True
    from check_users_missing [OF True, of "''Invalid role id ''"]
    show ?thesis
      by (auto simp add: role_Update_def role_Get_def split: sum.splits)
  next
    case False
    with missing have "list_ex (\<lambda>u. \<not> repo_CheckUserExistById repo db org_id (Hex u)) (urr_RemovedUser ureq)"
      by (auto simp add: list_ex_iff)
    from check_users_missing [OF this, of "''Invalid role id ''"]
    show ?thesis
      by (auto simp add: role_Update_def role_Get_def split: sum.splits option.splits)
  qed
  show "if isl (repo_Get repo db org_id rid)
             then fst (role_Update repo db org_id rid ureq)
                    = Inl (NotFoundError (''Role '' @ rid @ '' not exists.''))
             else \<exists>e. fst (role_Update repo db org_id rid ureq) = Inl e \<and> is_InvalidInput e"
  proof (cases "list_ex (\<lambda>u. \<not> repo_CheckUserExistById repo db org_id (Hex u)) (urr_AddedUsers ureq)")
    case True
    from check_users_missing [OF True, of "''Invalid role id ''"]
    show ?thesis
      by (cases "repo_Get repo db org_id rid") (auto simp add: role_Update_def role_Get_def)
  next
    case False
    with missing have "list_ex (\<lambda>u. \<not> repo_CheckUserExistById repo db org_id (Hex u)) (urr_RemovedUser ureq)"
      by (auto simp add: list_ex_iff)
    from check_users_missing [OF this, of "''Invalid role id ''"]
    show ?thesis
      by (cases "repo_Get repo db org_id rid";
          cases "check_users repo db org_id ''Invalid role id '' (urr_AddedUsers ureq)")
         (auto simp add: role_Update_def role_Get_def dest: check_users_Some)
  qed
qed

theorem role_mutation_unknown_user_witness:
  "list_ex (\<lambda>u. \<not> repo_CheckUserExistById mem_repo acme_store ''a0'' (Hex u)) [''u1'', ''u9'']
   \<and> role_Create mem_repo ''f3'' acme_store ''a0''
        \<lparr>crr_Identifier = ''ops'', crr_DisplayName = ''Ops'', crr_Users = [''u1'', ''u9'']\<rparr>
      = (Inl (InvalidInputError (''Invalid user id '' @ ObjectID_String ''u9'')), acme_store)
   \<and> list_ex (\<lambda>u. \<not> repo_CheckUserExistById mem_repo acme_store ''a0'' (Hex u)) ([''u2''] @ [''u9''])
   \<and> role_Update mem_repo acme_store ''a0'' ''f1''
        \<lparr>urr_DisplayName = None, urr_AddedUsers = [''u2''], urr_RemovedUser = [''u9'']\<rparr>
      = (Inl (InvalidInputError (''Invalid role id '' @ ObjectID_String ''u9'')), acme_store)"
proof -
  have c: "list_ex (\<lambda>u. \<not> repo_CheckUserExistById mem_repo acme_store ''a0'' (Hex u)) [''u1'', ''u9'']"
    by (simp add: mem_defs)
  have u: "list_ex (\<lambda>u. \<not> repo_CheckUserExistById mem_repo acme_store ''a0'' (Hex u)) ([''u2''] @ [''u9''])"
    by (simp add: mem_defs)
  have fresh: "\<not> repo_CheckRoleExistsByIdentifier mem_repo acme_store ''a0'' ''ops''"
    by (simp add: mem_defs)
  have present: "\<not> isl (repo_Get mem_repo acme_store ''a0'' ''f1'')"
    by (simp add: mem_defs)
  have create_err:
    "fst (role_Create mem_repo ''f3'' acme_store ''a0''
        \<lparr>crr_Identifier = ''ops'', crr_DisplayName = ''Ops'', crr_Users = [''u1'', ''u9'']\<rparr>)
      = Inl (InvalidInputError (''Invalid user id '' @ ObjectID_String ''u9''))"
    by (simp add: role_Create_def CreateRoleRequest_Validate_def mem_defs)
  have update_err:
    "fst (role_Update mem_repo acme_store ''a0'' ''f1''
        \<lparr>urr_DisplayName = None, urr_AddedUsers = [''u2''], urr_RemovedUser = [''u9'']\<rparr>)
      = Inl (InvalidInputError (''Invalid role id '' @ ObjectID_String ''u9''))"
    by (simp add: role_Update_def role_Get_def mem_defs)
  from role_mutation_unknown_user
         [where repo = mem_repo and db = acme_store and org_id = "''a0''" and roleId = "''f3''"
            and rid = "''f1''"
            and creq = "\<lparr>crr_Identifier = ''ops'', crr_DisplayName = ''Ops'',
                          crr_Users = [''u1'', ''u9'']\<rparr>"
            and ureq = "\<lparr>urr_DisplayName = None, urr_AddedUsers = [''u2''],
                          urr_RemovedUser = [''u9'']\<rparr>"]
       c u
  have unwritten:
    "snd (role_Create mem_repo ''f3'' acme_store ''a0''
        \<lparr>crr_Identifier = ''ops'', crr_DisplayName = ''Ops'', crr_Users = [''u1'', ''u9'']\<rparr>)
      = acme_store"
    "snd (role_Update mem_repo acme_store ''a0'' ''f1''
        \<lparr>urr_DisplayName = None, urr_AddedUsers = [''u2''], urr_RemovedUser = [''u9'']\<rparr>)
      = acme_store"
    by simp_all
  show ?thesis
    using c u create_err update_err unwritten by (simp add: prod_eq_iff)
qed

section \<open>Membership patches\<close>


















section \<open>Batch checks\<close>

lemma Check_store: "eng_Store (snd (Check eng org_id s a r)) = eng_Store eng"
  by (simp add: Check_def Let_def split: option.splits sum.splits)

lemma Check_cache:
  "eng_Cache (snd (Check eng org_id s a r)) k = eng_Cache eng k
   \<or> (eng_Cache eng k = None
       \<and> eng_Cache (snd (Check eng org_id s a r)) k = Some (decision (eng_Store eng) k))"
  by (simp add: Check_def Let_def split: option.splits sum.splits)

lemma Check_later:
  assumes "eng_Store eng' = eng_Store eng"
    and "\<forall>k. eng_Cache eng' k = eng_Cache eng k
            \<or> (eng_Cache eng k = None \<and> eng_Cache eng' k = Some (decision (eng_Store eng) k))"
  shows "fst (Check eng' org_id s a r) = fst (Check eng org_id s a r)"
proof (cases "find_org (eng_Store eng) org_id")
  case None
  then show ?thesis using assms(1) by (simp add: Check_def)
next
  case (Some org)
  show ?thesis
  proof (cases "ResolveSubject (eng_Store eng) org_id s")
    case (Inl e)
    then show ?thesis using Some assms(1) by (simp add: Check_def)
  next
    case (Inr uid)
    from assms(2) have
      "eng_Cache eng' (org_id, uid, a, r) = eng_Cache eng (org_id, uid, a, r)
       \<or> (eng_Cache eng (org_id, uid, a, r) = None
           \<and> eng_Cache eng' (org_id, uid, a, r)
               = Some (decision (eng_Store eng) (org_id, uid, a, r)))"
      by blast
    then show ?thesis using Some Inr assms(1)
      by (auto simp add: Check_def Let_def split: option.splits)
  qed
qed

lemma check_each_later:
  assumes "eng_Store eng' = eng_Store eng"
    and "\<forall>k. eng_Cache eng' k = eng_Cache eng k
            \<or> (eng_Cache eng k = None \<and> eng_Cache eng' k = Some (decision (eng_Store eng) k))"
  shows "fst (check_each eng' org_id s pairs) = pointwise_Check eng org_id s pairs"
  using assms
proof (induction pairs arbitrary: eng')
  case Nil
  then show ?case by (simp add: pointwise_Check_def)
next
  case (Cons pair rest)
  let ?step = "Check eng' org_id s (fst pair) (snd pair)"
  have same: "fst ?step = fst (Check eng org_id s (fst pair) (snd pair))"
    using Cons.prems by (rule Check_later)
  have store: "eng_Store (snd ?step) = eng_Store eng"
    using Cons.prems(1) by (simp add: Check_store)
  have cache: "\<forall>k. eng_Cache (snd ?step) k = eng_Cache eng k
            \<or> (eng_Cache eng k = None
                \<and> eng_Cache (snd ?step) k = Some (decision (eng_Store eng) k))"
  proof
    fix k
    from Check_cache [of eng' org_id s "fst pair" "snd pair" k] Cons.prems
    show "eng_Cache (snd ?step) k = eng_Cache eng k
            \<or> (eng_Cache eng k = None
                \<and> eng_Cache (snd ?step) k = Some (decision (eng_Store eng) k))"
      by metis
  qed
  have rest: "fst (check_each (snd ?step) org_id s rest) = pointwise_Check eng org_id s rest"
    using store cache by (rule Cons.IH)
  show ?case
  proof (cases ?step)
    case (Pair res eng'')
    with same rest show ?thesis
      by (cases res) (auto simp add: pointwise_Check_def split: prod.splits sum.splits)
  qed
qed

lemma check_each_pointwise:
  "fst (check_each eng org_id s pairs) = pointwise_Check eng org_id s pairs"
  by (rule check_each_later) simp_all

text \<open>
  Claim C8. The results of CheckAll and CheckPermissions are pointwise those of the
  single-pair Check called for each pair on its own, in the order of the input: the
  batch, which runs its checks one after the other on one engine and so sees the cache
  entries of the earlier ones, returns what the independent calls return, and the
  handlers answer with exactly that.
\<close>

theorem batch_checks_pointwise:
  "fst (CheckAll eng org_id namespace input)
     = pointwise_Check eng org_id (cra_Subject input) (cra_Pairs input)
   \<and> fst (CheckPermissions eng org_id namespace request)
     = map_sum id (zip (crp_Actions request))
         (pointwise_Check eng org_id (crp_Subject request)
            (map (\<lambda>a. (a, crp_Resource request)) (crp_Actions request)))
   \<and> fst (checkall HandleError CheckAll eng org_id (Inr input))
     = (case pointwise_Check eng org_id (cra_Subject input) (cra_Pairs input) of
          Inl err \<Rightarrow> Err (HandleError err)
        | Inr allow \<Rightarrow> JSON 200 allow)
   \<and> fst (checkpermissions HandleError CheckPermissions eng org_id (Inr request))
     = (case pointwise_Check eng org_id (crp_Subject request)
              (map (\<lambda>a. (a, crp_Resource request)) (crp_Actions request)) of
          Inl err \<Rightarrow> Err (HandleError err)
        | Inr allow \<Rightarrow> JSON 200 (zip (crp_Actions request) allow))"
proof -
  have all: "fst (CheckAll eng org_id ns input)
     = pointwise_Check eng org_id (cra_Subject input) (cra_Pairs input)" for ns
    by (simp add: CheckAll_def check_each_pointwise)
  have perms: "fst (CheckPermissions eng org_id ns request)
     = map_sum id (zip (crp_Actions request))
         (pointwise_Check eng org_id (crp_Subject request)
            (map (\<lambda>a. (a, crp_Resource request)) (crp_Actions request)))" for ns
  proof -
    obtain res eng' where run:
      "check_each eng org_id (crp_Subject request)
         (map (\<lambda>a. (a, crp_Resource request)) (crp_Actions request)) = (res, eng')"
      by (cases "check_each eng org_id (crp_Subject request)
         (map (\<lambda>a. (a, crp_Resource request)) (crp_Actions request))")
    with check_each_pointwise [of eng org_id "crp_Subject request"
        "map (\<lambda>a. (a, crp_Resource request)) (crp_Actions request)"]
    have pw: "pointwise_Check eng org_id (crp_Subject request)
            (map (\<lambda>a. (a, crp_Resource request)) (crp_Actions request)) = res"
      by simp
    show ?thesis by (cases res) (simp_all add: CheckPermissions_def run pw)
  qed
  have h1: "fst (checkall HandleError CheckAll eng org_id (Inr input))
     = (case pointwise_Check eng org_id (cra_Subject input) (cra_Pairs input) of
          Inl err \<Rightarrow> Err (HandleError err)
        | Inr allow \<Rightarrow> JSON 200 allow)"
  proof -
    obtain res eng' where run: "CheckAll eng org_id ''permission'' input = (res, eng')"
      by (cases "CheckAll eng org_id ''permission'' input")
    with all [of "''permission''"]
    have "pointwise_Check eng org_id (cra_Subject input) (cra_Pairs input) = res"
      by simp
    then show ?thesis by (cases res) (auto simp add: checkall_def run)
  qed
  have h2: "fst (checkpermissions HandleError CheckPermissions eng org_id (Inr request))
     = (case pointwise_Check eng org_id (crp_Subject request)
              (map (\<lambda>a. (a, crp_Resource request)) (crp_Actions request)) of
          Inl err \<Rightarrow> Err (HandleError err)
        | Inr allow \<Rightarrow> JSON 200 (zip (crp_Actions request) allow))"
  proof -
    obtain res eng' where run: "CheckPermissions eng org_id ''permission'' request = (res, eng')"
      by (cases "CheckPermissions eng org_id ''permission'' request")
    with perms [of "''permission''"]
    have "map_sum id (zip (crp_Actions request))
         (pointwise_Check eng org_id (crp_Subject request)
            (map (\<lambda>a. (a, crp_Resource request)) (crp_Actions request))) = res"
      by simp
    then show ?thesis
      by (cases "pointwise_Check eng org_id (crp_Subject request)
            (map (\<lambda>a. (a, crp_Resource request)) (crp_Actions request))")
         (auto simp add: checkpermissions_def run)
  qed
  show ?thesis using all perms h1 h2 by blast
qed

theorem batch_checks_pointwise_witness:
  "fst (CheckAll \<lparr>eng_Store = acme_store, eng_Cache = Map.empty\<rparr> ''a0'' ''permission''
          \<lparr>cra_Subject = ''carol'',
           cra_Pairs = [(''view'', ''invoices''), (''approve'', ''invoices''),
                        (''view'', ''invoices'')]\<rparr>)
     = Inr [True, False, True]
   \<and> fst (Check \<lparr>eng_Store = acme_store, eng_Cache = Map.empty\<rparr>
             ''a0'' ''carol'' ''view'' ''invoices'') = Inr True
   \<and> fst (Check \<lparr>eng_Store = acme_store, eng_Cache = Map.empty\<rparr>
             ''a0'' ''carol'' ''approve'' ''invoices'') = Inr False
   \<and> fst (CheckPermissions \<lparr>eng_Store = acme_store, eng_Cache = Map.empty\<rparr> ''a0'' ''permission''
          \<lparr>crp_Subject = ''alice'', crp_Actions = [''view'', ''approve''],
           crp_Resource = ''invoices''\<rparr>)
     = Inr [(''view'', False), (''approve'', True)]"
proof -
  have carol: "fst (Check \<lparr>eng_Store = acme_store, eng_Cache = Map.empty\<rparr>
             ''a0'' ''carol'' ''view'' ''invoices'') = Inr True"
    "fst (Check \<lparr>eng_Store = acme_store, eng_Cache = Map.empty\<rparr>
             ''a0'' ''carol'' ''approve'' ''invoices'') = Inr False"
    by (simp_all add: engine_defs mem_defs)
  have alice: "fst (Check \<lparr>eng_Store = acme_store, eng_Cache = Map.empty\<rparr>
             ''a0'' ''alice'' ''view'' ''invoices'') = Inr False"
    "fst (Check \<lparr>eng_Store = acme_store, eng_Cache = Map.empty\<rparr>
             ''a0'' ''alice'' ''approve'' ''invoices'') = Inr True"
    by (simp_all add: engine_defs mem_defs)
  show ?thesis
    using carol alice
      batch_checks_pointwise [where eng = "\<lparr>eng_Store = acme_store, eng_Cache = Map.empty\<rparr>"
        and org_id = "''a0''" and namespace = "''permission''"
        and input = "\<lparr>cra_Subject = ''carol'',
           cra_Pairs = [(''view'', ''invoices''), (''approve'', ''invoices''),
                        (''view'', ''invoices'')]\<rparr>"
        and request = "\<lparr>crp_Subject = ''alice'', crp_Actions = [''view'', ''approve''],
           crp_Resource = ''invoices''\<rparr>"]
    by (simp add: pointwise_Check_def)
qed

section \<open>Deleting a resource\<close>








section \<open>Updating a resource\<close>

lemmas rs_defs = rs_repo_def rs_Get_def rs_Update_def rs_ExistByKey_def rs_Create_def two_orgs_def

lemma resource_Update_success:
  assumes "resource_Update repo db org_id rid req = (Inr updated, db')"
  shows "\<exists>before. rr_Get repo db org_id rid = Inr before
            \<and> eres_ID updated = eres_ID before \<and> eres_Key updated = eres_Key before
            \<and> updated = before\<lparr>eres_Name := ures_Name req\<rparr>
            \<and> rr_Update repo db org_id updated = (None, db')"
  using assms
  by (auto simp add: resource_Update_def resource_Get_def UpdateResourceRequest_Validate_def
      split: sum.splits prod.splits option.splits)

text \<open>
  Claim C10. A successful resource Update changes the display name only: the resource
  it writes and returns is the stored one with the name of the request, so its ID and
  Key are those it had before. When the resource does not exist, Update returns
  NotFound and the store is left as it was.
\<close>

theorem resource_Update_changes_name_only:
  "(resource_Update repo db org_id rid req = (Inr updated, db')
      \<longrightarrow> (\<exists>before. rr_Get repo db org_id rid = Inr before
            \<and> eres_ID updated = eres_ID before \<and> eres_Key updated = eres_Key before
            \<and> updated = before\<lparr>eres_Name := ures_Name req\<rparr>
            \<and> rr_Update repo db org_id updated = (None, db')))
   \<and> (isl (rr_Get repo db org_id rid)
      \<longrightarrow> resource_Update repo db org_id rid req
            = (Inl (NotFoundError (''Resource '' @ rid @ '' not exists.'')), db))"
proof (intro conjI impI)
  assume "resource_Update repo db org_id rid req = (Inr updated, db')"
  then show "\<exists>before. rr_Get repo db org_id rid = Inr before
            \<and> eres_ID updated = eres_ID before \<and> eres_Key updated = eres_Key before
            \<and> updated = before\<lparr>eres_Name := ures_Name req\<rparr>
            \<and> rr_Update repo db org_id updated = (None, db')"
    by (rule resource_Update_success)
next
  assume "isl (rr_Get repo db org_id rid)"
  then show "resource_Update repo db org_id rid req
            = (Inl (NotFoundError (''Resource '' @ rid @ '' not exists.'')), db)"
    by (cases "rr_Get repo db org_id rid")
       (simp_all add: resource_Update_def resource_Get_def UpdateResourceRequest_Validate_def)
qed

theorem resource_Update_changes_name_only_witness:
  "resource_Update rs_repo two_orgs ''a0'' ''d1'' \<lparr>ures_Name = ''Bills''\<rparr>
     = (Inr \<lparr>eres_ID = ''d1'', eres_Key = ''invoices'', eres_Name = ''Bills''\<rparr>,
        [(''a0'', \<lparr>eres_ID = ''d1'', eres_Key = ''invoices'', eres_Name = ''Bills''\<rparr>),
         (''b0'', \<lparr>eres_ID = ''d2'', eres_Key = ''reports'', eres_Name = ''Reports''\<rparr>)])
   \<and> rr_Get rs_repo two_orgs ''a0'' ''d1''
       = Inr \<lparr>eres_ID = ''d1'', eres_Key = ''invoices'', eres_Name = ''Invoices''\<rparr>
   \<and> isl (rr_Get rs_repo two_orgs ''a0'' ''d2'')
   \<and> resource_Update rs_repo two_orgs ''a0'' ''d2'' \<lparr>ures_Name = ''Bills''\<rparr>
       = (Inl (NotFoundError ''Resource d2 not exists.''), two_orgs)"
proof -
  have run: "resource_Update rs_repo two_orgs ''a0'' ''d1'' \<lparr>ures_Name = ''Bills''\<rparr>
     = (Inr \<lparr>eres_ID = ''d1'', eres_Key = ''invoices'', eres_Name = ''Bills''\<rparr>,
        [(''a0'', \<lparr>eres_ID = ''d1'', eres_Key = ''invoices'', eres_Name = ''Bills''\<rparr>),
         (''b0'', \<lparr>eres_ID = ''d2'', eres_Key = ''reports'', eres_Name = ''Reports''\<rparr>)])"
    by (simp add: resource_Update_def resource_Get_def UpdateResourceRequest_Validate_def rs_defs)
  have before: "rr_Get rs_repo two_orgs ''a0'' ''d1''
       = Inr \<lparr>eres_ID = ''d1'', eres_Key = ''invoices'', eres_Name = ''Invoices''\<rparr>"
    by (simp add: rs_defs)
  have absent: "isl (rr_Get rs_repo two_orgs ''a0'' ''d2'')"
    by (simp add: rs_defs)
  from resource_Update_changes_name_only
         [where repo = rs_repo and db = two_orgs and org_id = "''a0''" and rid = "''d2''"
            and req = "\<lparr>ures_Name = ''Bills''\<rparr>"] absent
  have notfound: "resource_Update rs_repo two_orgs ''a0'' ''d2'' \<lparr>ures_Name = ''Bills''\<rparr>
       = (Inl (NotFoundError (''Resource '' @ ''d2'' @ '' not exists.'')), two_orgs)"
    by blast
  from resource_Update_changes_name_only
         [where repo = rs_repo and db = two_orgs and org_id = "''a0''" and rid = "''d1''"
            and req = "\<lparr>ures_Name = ''Bills''\<rparr>"] run
  have "\<exists>before. rr_Get rs_repo two_orgs ''a0'' ''d1'' = Inr before
            \<and> eres_ID \<lparr>eres_ID = ''d1'', eres_Key = ''invoices'', eres_Name = ''Bills''\<rparr> = eres_ID before"
    by blast
  with run before absent notfound show ?thesis by simp
qed

end
